theory Spec2Isabelle
  imports Main
begin

section \<open>The todo service\<close>

text \<open>
  The program is an Express application with five handlers over two module-level
  variables: the counter \<open>idGenerator\<close> and the array \<open>todos\<close>. A handler is modelled
  as a function from the store (both variables) and the parsed request to the new store
  and the response it sends.
\<close>

subsection \<open>JavaScript values\<close>

text \<open>
  A number that reaches the handlers is either the counter, a stored id, or
  \<open>Number(req.params['id'])\<close>. \<open>Num n\<close> is the double whose value is the integer
  \<open>n\<close>, \<open>NaN\<close> is what \<open>Number\<close> yields for text that is no numeric literal. The
  model is exact for integers of magnitude below \<open>2 ^ 53\<close>, where every integer is a
  double, \<open>++\<close> adds exactly one and the string form is the decimal numeral; fractions
  and infinities are not represented.
\<close>

datatype jsnum = NaN | Num int

text \<open>A value that \<open>JSON.parse\<close> can produce.\<close>

datatype json =
    JNull
  | JBool bool
  | JNum jsnum
  | JStr string
  | JArray "json list"
  | JObject "(string \<times> json) list"

text \<open>
  An object whose properties the handlers read and spread (a todo, a request body) is the
  map of its own enumerable properties. Reading a property yields \<open>None\<close> for
  \<open>undefined\<close>, which is what JavaScript gives for an absent property; JSON itself has
  no \<open>undefined\<close>. An array body is the object of its index properties, which is all
  that spread and \<open>.id\<close> see of it.
\<close>

type_synonym obj = "string \<rightharpoonup> json"

text \<open>
  \<open>a === b\<close>. Values of different types are never equal, \<open>NaN\<close> equals nothing, and
  arrays and objects are compared by reference: the handlers only compare a stored id with
  a value of the current request, which are different allocations.
\<close>

fun num_eq :: "jsnum \<Rightarrow> jsnum \<Rightarrow> bool" where
  "num_eq (Num a) (Num b) = (a = b)"
| "num_eq _ _ = False"

fun strict_eq :: "json option \<Rightarrow> json option \<Rightarrow> bool" where
  "strict_eq None None = True"
| "strict_eq (Some JNull) (Some JNull) = True"
| "strict_eq (Some (JBool a)) (Some (JBool b)) = (a = b)"
| "strict_eq (Some (JNum a)) (Some (JNum b)) = num_eq a b"
| "strict_eq (Some (JStr a)) (Some (JStr b)) = (a = b)"
| "strict_eq _ _ = False"

text \<open>The string a template literal \<open>`${v}`\<close> inserts for a value.\<close>

definition digit_char :: "nat \<Rightarrow> char" where
  "digit_char d = ''0123456789'' ! (d mod 10)"

fun digits :: "nat \<Rightarrow> string" where
  "digits n = (if n < 10 then [digit_char n] else digits (n div 10) @ [digit_char n])"

declare digits.simps [simp del]

fun num_toString :: "jsnum \<Rightarrow> string" where
  "num_toString NaN = ''NaN''"
| "num_toString (Num i) = (if i < 0 then ''-'' @ digits (nat (- i)) else digits (nat i))"

fun toString :: "json \<Rightarrow> string"
  and join_elems :: "json list \<Rightarrow> string" where
  "toString JNull = ''null''"
| "toString (JBool b) = (if b then ''true'' else ''false'')"
| "toString (JNum n) = num_toString n"
| "toString (JStr s) = s"
| "toString (JArray xs) = join_elems xs"
| "toString (JObject ps) = ''[object Object]''"
| "join_elems [] = []"
| "join_elems [x] = (if x = JNull then [] else toString x)"
| "join_elems (x # y # ys) =
     (if x = JNull then [] else toString x) @ '','' @ join_elems (y # ys)"

fun template :: "json option \<Rightarrow> string" where
  "template None = ''undefined''"
| "template (Some v) = toString v"

subsection \<open>Array operations\<close>

text \<open>\<open>xs.findIndex(P)\<close>: the index of the first element that satisfies \<open>P\<close>, or -1.\<close>

fun findIndex :: "('a \<Rightarrow> bool) \<Rightarrow> 'a list \<Rightarrow> int" where
  "findIndex P [] = - 1"
| "findIndex P (x # xs) =
     (if P x then 0 else (let i = findIndex P xs in if i = - 1 then - 1 else i + 1))"

text \<open>
  \<open>xs.splice(start, count)\<close> with no items to insert: the removed elements and the
  array that is left.
\<close>

definition splice_arr :: "nat \<Rightarrow> nat \<Rightarrow> 'a list \<Rightarrow> 'a list \<times> 'a list" where
  "splice_arr start cnt xs = (take cnt (drop start xs), take start xs @ drop (start + cnt) xs)"

subsection \<open>The store and the responses\<close>

record store =
  idGenerator :: int
  todos :: "obj list"

datatype body = JsonObj obj | JsonArr "obj list" | Text string | Empty

datatype response = Response nat body

text \<open>\<open>res.send(v)\<close> answers 200; \<open>res.status(c).send(text)\<close> answers \<open>c\<close>.\<close>

definition send :: "body \<Rightarrow> response" where
  "send b = Response 200 b"

definition status_send :: "nat \<Rightarrow> string \<Rightarrow> response" where
  "status_send c msg = Response c (Text msg)"

definition not_found_msg :: "json option \<Rightarrow> string" where
  "not_found_msg v = ''Todo entity not found by id: '' @ template v"

text \<open>\<open>idGenerator++\<close>: the value before, and the counter one higher.\<close>

definition newId :: "store \<Rightarrow> int \<times> store" where
  "newId s = (idGenerator s, s\<lparr>idGenerator := idGenerator s + 1\<rparr>)"

text \<open>
  The module's initialisation: the counter starts at 1 and each literal of the array takes
  \<open>idGenerator++\<close>.
\<close>

definition seed :: "string \<Rightarrow> store \<Rightarrow> store" where
  "seed title s =
     (let (n, s1) = newId s
      in s1\<lparr>todos := todos s1 @ [[''id'' \<mapsto> JNum (Num n), ''title'' \<mapsto> JStr title]]\<rparr>)"

definition initial_store :: store where
  "initial_store =
     seed ''Learn Express'' (seed ''Learn NodeJs'' (seed ''Learn Angular''
       (seed ''Learn TypeScript'' \<lparr>idGenerator = 1, todos = []\<rparr>)))"

subsection \<open>The handlers\<close>

text \<open>\<open>app.get('/api/todos')\<close>\<close>

definition get_todos :: "store \<Rightarrow> store \<times> response" where
  "get_todos s = (s, send (JsonArr (todos s)))"

text \<open>
  \<open>app.post('/api/todos')\<close>, with \<open>item\<close> the request body. The spread
  \<open>{ id: newId(), ...item }\<close> writes the properties of \<open>item\<close> over the object
  that holds the new id.
\<close>

definition post_todos :: "store \<Rightarrow> obj \<Rightarrow> store \<times> response" where
  "post_todos s item =
     (let (n, s1) = newId s;
          newTodo = [''id'' \<mapsto> JNum (Num n)] ++ item;
          s2 = s1\<lparr>todos := todos s1 @ [newTodo]\<rparr>
      in (s2, send (JsonObj newTodo)))"

text \<open>\<open>app.get('/api/todos/:id')\<close>, with \<open>id'\<close> for \<open>Number(req.params['id'])\<close>.\<close>

definition get_todo :: "store \<Rightarrow> jsnum \<Rightarrow> store \<times> response" where
  "get_todo s id' =
     (case find (\<lambda>todo. strict_eq (todo ''id'') (Some (JNum id'))) (todos s) of
        Some found \<Rightarrow> (s, send (JsonObj found))
      | None \<Rightarrow> (s, status_send 404 (not_found_msg (Some (JNum id')))))"

text \<open>
  \<open>app.put('/api/todos')\<close>, with \<open>item\<close> the request body. The index is inside the
  array whenever it is not -1 (lemma \<open>findIndex_bounds\<close> below), so \<open>todos[idx]\<close> reads
  and writes an element that exists.
\<close>

definition put_todos :: "store \<Rightarrow> obj \<Rightarrow> store \<times> response" where
  "put_todos s item =
     (let idx = findIndex (\<lambda>todo. strict_eq (todo ''id'') (item ''id'')) (todos s)
      in if idx \<noteq> - 1 then
           (let updatedTodo = (todos s ! nat idx) ++ item
            in (s\<lparr>todos := (todos s)[nat idx := updatedTodo]\<rparr>, send (JsonObj updatedTodo)))
         else (s, status_send 404 (not_found_msg (item ''id''))))"

text \<open>
  \<open>app.delete('/api/todos/:id')\<close>, with \<open>id'\<close> for \<open>Number(req.params['id'])\<close>. Element 0 of
  an empty array is \<open>undefined\<close>, for which \<open>res.send\<close> answers with no body.
\<close>

definition delete_todo :: "store \<Rightarrow> jsnum \<Rightarrow> store \<times> response" where
  "delete_todo s id' =
     (let idx = findIndex (\<lambda>todo. strict_eq (todo ''id'') (Some (JNum id'))) (todos s)
      in if idx \<noteq> - 1 then
           (let (removed, rest) = splice_arr (nat idx) 1 (todos s)
            in (s\<lparr>todos := rest\<rparr>,
                case removed of deletedTodo # _ \<Rightarrow> send (JsonObj deletedTodo) | [] \<Rightarrow> send Empty))
         else (s, status_send 404 (not_found_msg (Some (JNum id')))))"

subsection \<open>Sequences of requests\<close>

datatype request = GetAll | Post obj | Get jsnum | Put obj | Delete jsnum

fun handle :: "store \<Rightarrow> request \<Rightarrow> store \<times> response" where
  "handle s GetAll = get_todos s"
| "handle s (Post item) = post_todos s item"
| "handle s (Get id') = get_todo s id'"
| "handle s (Put item) = put_todos s item"
| "handle s (Delete id') = delete_todo s id'"

text \<open>
  Requests are served one at a time, each to completion; \<open>run\<close> gives the final store and
  the responses in order.
\<close>

fun run :: "store \<Rightarrow> request list \<Rightarrow> store \<times> response list" where
  "run s [] = (s, [])"
| "run s (r # rs) =
     (let (s1, resp) = handle s r; (s2, resps) = run s1 rs in (s2, resp # resps))"

text \<open>The bodies of all \<open>POST\<close> requests of a sequence lack the property \<open>id\<close>.\<close>

fun is_draft :: "request \<Rightarrow> bool" where
  "is_draft (Post item) = (item ''id'' = None)"
| "is_draft _ = True"

definition drafts_only :: "request list \<Rightarrow> bool" where
  "drafts_only reqs = list_all is_draft reqs"

fun count_posts :: "request list \<Rightarrow> nat" where
  "count_posts [] = 0"
| "count_posts (Post item # rs) = Suc (count_posts rs)"
| "count_posts (_ # rs) = count_posts rs"

text \<open>
  The ids that the \<open>POST\<close> requests of a sequence were answered with, in order: the
  integer under \<open>id\<close> of each todo sent back. A response that carries no such todo
  contributes nothing.
\<close>

fun sent_id :: "response \<Rightarrow> int list" where
  "sent_id (Response c (JsonObj t)) =
     (case t ''id'' of Some (JNum (Num n)) \<Rightarrow> [n] | _ \<Rightarrow> [])"
| "sent_id _ = []"

fun created_ids :: "request list \<Rightarrow> response list \<Rightarrow> int list" where
  "created_ids (Post item # rs) (p # ps) = sent_id p @ created_ids rs ps"
| "created_ids (_ # rs) (_ # ps) = created_ids rs ps"
| "created_ids _ _ = []"

subsection \<open>Invariants of the store\<close>

text \<open>No two todos of the array have ids that are \<open>===\<close>.\<close>

fun unique_ids :: "obj list \<Rightarrow> bool" where
  "unique_ids [] = True"
| "unique_ids (t # ts) =
     (list_all (\<lambda>u. \<not> strict_eq (t ''id'') (u ''id'')) ts \<and> unique_ids ts)"

text \<open>The id of a todo is a number; it is an integer below \<open>g\<close>.\<close>

fun numeric_id :: "obj \<Rightarrow> bool" where
  "numeric_id t = (case t ''id'' of Some (JNum x) \<Rightarrow> True | _ \<Rightarrow> False)"

fun id_below :: "int \<Rightarrow> obj \<Rightarrow> bool" where
  "id_below g t = (case t ''id'' of Some (JNum (Num n)) \<Rightarrow> n < g | _ \<Rightarrow> False)"

text \<open>
  What the requests with id-less \<open>POST\<close> bodies maintain: ids are pairwise different
  integers below the counter.
\<close>

definition store_ok :: "store \<Rightarrow> bool" where
  "store_ok s = (unique_ids (todos s) \<and> list_all (id_below (idGenerator s)) (todos s))"

section \<open>Properties\<close>

subsection \<open>The seeded store, the array scan, strict equality\<close>

lemma initial_store_eq: "initial_store = \<lparr>idGenerator = 5, todos =
   [[''id'' \<mapsto> JNum (Num 1), ''title'' \<mapsto> JStr ''Learn TypeScript''],
    [''id'' \<mapsto> JNum (Num 2), ''title'' \<mapsto> JStr ''Learn Angular''],
    [''id'' \<mapsto> JNum (Num 3), ''title'' \<mapsto> JStr ''Learn NodeJs''],
    [''id'' \<mapsto> JNum (Num 4), ''title'' \<mapsto> JStr ''Learn Express'']]\<rparr>"
  by (simp add: initial_store_def seed_def newId_def)

lemma findIndex_lower: "- 1 \<le> findIndex P xs"
  by (induction xs) (auto simp: Let_def)

lemma findIndex_none: "(findIndex P xs = - 1) = (\<forall>x\<in>set xs. \<not> P x)"
proof (induction xs)
  case Nil
  show ?case by simp
next
  case (Cons x xs)
  have "- 1 \<le> findIndex P xs" by (rule findIndex_lower)
  with Cons show ?case by (auto simp: Let_def)
qed

lemma findIndex_bounds:
  "findIndex P xs \<noteq> - 1 \<Longrightarrow> 0 \<le> findIndex P xs \<and> nat (findIndex P xs) < length xs"
proof (induction xs)
  case Nil
  then show ?case by simp
next
  case (Cons x xs)
  show ?case
  proof (cases "P x")
    case True
    then show ?thesis by simp
  next
    case False
    with Cons.prems have ne: "findIndex P xs \<noteq> - 1" by (auto simp: Let_def)
    from Cons.IH [OF ne] False ne show ?thesis by (auto simp: Let_def nat_add_distrib)
  qed
qed

lemma findIndex_first:
  "findIndex P xs \<noteq> - 1 \<Longrightarrow>
     P (xs ! nat (findIndex P xs)) \<and> (\<forall>j < nat (findIndex P xs). \<not> P (xs ! j))"
proof (induction xs)
  case Nil
  then show ?case by simp
next
  case (Cons x xs)
  show ?case
  proof (cases "P x")
    case True
    then show ?thesis by simp
  next
    case False
    with Cons.prems have ne: "findIndex P xs \<noteq> - 1" by (auto simp: Let_def)
    have pos: "0 \<le> findIndex P xs" using findIndex_bounds [OF ne] by simp
    then have n: "nat (findIndex P xs + 1) = Suc (nat (findIndex P xs))" by simp
    from Cons.IH [OF ne] False ne n show ?thesis
      by (auto simp: Let_def nth_Cons split: nat.splits)
  qed
qed

lemma findIndex_found:
  assumes "\<exists>x \<in> set xs. P x"
  shows "\<exists>i < length xs. findIndex P xs = int i \<and> P (xs ! i) \<and> (\<forall>j < i. \<not> P (xs ! j))"
proof -
  from assms have ne: "findIndex P xs \<noteq> - 1" by (simp add: findIndex_none)
  let ?i = "nat (findIndex P xs)"
  from findIndex_bounds [OF ne] have "?i < length xs" and "findIndex P xs = int ?i" by simp_all
  with findIndex_first [OF ne] show ?thesis by blast
qed

lemma splice_one:
  "i < length xs \<Longrightarrow> splice_arr i (Suc 0) xs = ([xs ! i], take i xs @ drop (Suc i) xs)"
  by (simp add: splice_arr_def Cons_nth_drop_Suc [symmetric])

lemma strict_eq_sym: "strict_eq a b = strict_eq b a"
  by (induction a b rule: strict_eq.induct) (auto elim: num_eq.elims)

lemma strict_eq_same: "strict_eq a b \<Longrightarrow> a = b"
  by (induction a b rule: strict_eq.induct) (auto elim: num_eq.elims)


lemma strict_eq_NaN [simp]: "\<not> strict_eq a (Some (JNum NaN))"
  by (cases "(a, Some (JNum NaN))" rule: strict_eq.cases) auto

lemma spread_draft: "item ''id'' = None \<Longrightarrow> [''id'' \<mapsto> v] ++ item = item(''id'' \<mapsto> v)"
  by (rule ext) (simp add: map_add_def split: option.splits)

lemma spread_body_id: "item ''id'' = Some v \<Longrightarrow> [''id'' \<mapsto> w] ++ item = item"
  by (rule ext) (auto simp: map_add_def split: option.splits)

subsection \<open>What each handler does when a todo matches and when none does\<close>

lemma get_todo_not_found:
  "\<forall>t \<in> set (todos s). \<not> strict_eq (t ''id'') (Some (JNum n)) \<Longrightarrow>
     get_todo s n = (s, Response 404 (Text (''Todo entity not found by id: '' @ num_toString n)))"
  by (simp add: get_todo_def find_None_iff [THEN iffD2] status_send_def not_found_msg_def)


lemma put_todos_not_found:
  "\<forall>t \<in> set (todos s). \<not> strict_eq (t ''id'') (item ''id'') \<Longrightarrow>
     put_todos s item =
       (s, Response 404 (Text (''Todo entity not found by id: '' @ template (item ''id''))))"
  by (simp add: put_todos_def findIndex_none [THEN iffD2] status_send_def not_found_msg_def)

lemma put_todos_found:
  assumes "\<exists>t \<in> set (todos s). strict_eq (t ''id'') (item ''id'')"
  shows "\<exists>i < length (todos s).
           strict_eq ((todos s ! i) ''id'') (item ''id'') \<and>
           (\<forall>j < i. \<not> strict_eq ((todos s ! j) ''id'') (item ''id'')) \<and>
           put_todos s item =
             (s\<lparr>todos := (todos s)[i := todos s ! i ++ item]\<rparr>,
              Response 200 (JsonObj (todos s ! i ++ item)))"
proof -
  let ?P = "\<lambda>todo. strict_eq (todo ''id'') (item ''id'')"
  from findIndex_found [of "todos s" ?P, OF assms]
  obtain i where i: "i < length (todos s)" "findIndex ?P (todos s) = int i"
    "?P (todos s ! i)" "\<forall>j < i. \<not> ?P (todos s ! j)" by blast
  have "put_todos s item =
      (s\<lparr>todos := (todos s)[i := todos s ! i ++ item]\<rparr>,
       Response 200 (JsonObj (todos s ! i ++ item)))"
    using i(2) by (simp add: put_todos_def Let_def send_def)
  with i show ?thesis by blast
qed

lemma delete_todo_not_found:
  "\<forall>t \<in> set (todos s). \<not> strict_eq (t ''id'') (Some (JNum n)) \<Longrightarrow>
     delete_todo s n = (s, Response 404 (Text (''Todo entity not found by id: '' @ num_toString n)))"
  by (simp add: delete_todo_def findIndex_none [THEN iffD2] status_send_def not_found_msg_def)

lemma delete_todo_found:
  assumes "\<exists>t \<in> set (todos s). strict_eq (t ''id'') (Some (JNum n))"
  shows "\<exists>i < length (todos s).
           strict_eq ((todos s ! i) ''id'') (Some (JNum n)) \<and>
           (\<forall>j < i. \<not> strict_eq ((todos s ! j) ''id'') (Some (JNum n))) \<and>
           delete_todo s n =
             (s\<lparr>todos := take i (todos s) @ drop (Suc i) (todos s)\<rparr>,
              Response 200 (JsonObj (todos s ! i)))"
proof -
  let ?P = "\<lambda>todo. strict_eq (todo ''id'') (Some (JNum n))"
  from findIndex_found [of "todos s" ?P, OF assms]
  obtain i where i: "i < length (todos s)" "findIndex ?P (todos s) = int i"
    "?P (todos s ! i)" "\<forall>j < i. \<not> ?P (todos s ! j)" by blast
  have "delete_todo s n =
      (s\<lparr>todos := take i (todos s) @ drop (Suc i) (todos s)\<rparr>,
       Response 200 (JsonObj (todos s ! i)))"
    using i(1,2) by (simp add: delete_todo_def Let_def send_def splice_one)
  with i show ?thesis by blast
qed

subsection \<open>Pairwise different ids\<close>

lemma unique_ids_snoc:
  "unique_ids (ts @ [t]) =
     (unique_ids ts \<and> list_all (\<lambda>u. \<not> strict_eq (u ''id'') (t ''id'')) ts)"
  by (induction ts) (auto simp: list_all_iff strict_eq_sym)

lemma unique_ids_remove: "unique_ids ts \<Longrightarrow> unique_ids (take i ts @ drop (Suc i) ts)"
proof (induction ts arbitrary: i)
  case Nil
  then show ?case by simp
next
  case (Cons t ts)
  show ?case
  proof (cases i)
    case 0
    with Cons.prems show ?thesis by simp
  next
    case (Suc j)
    have "set (take j ts @ drop (Suc j) ts) \<subseteq> set ts"
      using set_take_subset [of j ts] set_drop_subset [of "Suc j" ts] by auto
    with Cons.prems Cons.IH [of j] Suc show ?thesis
      by (auto simp: list_all_iff)
  qed
qed


lemma unique_ids_cong:
  "map (\<lambda>t. t ''id'') ts = map (\<lambda>t. t ''id'') us \<Longrightarrow> unique_ids ts = unique_ids us"
proof (induction ts arbitrary: us)
  case Nil
  then show ?case by simp
next
  case (Cons t ts)
  then obtain u us' where us: "us = u # us'" by (cases us) auto
  with Cons.prems have hd: "t ''id'' = u ''id''"
    and tl: "map (\<lambda>t. t ''id'') ts = map (\<lambda>t. t ''id'') us'" by simp_all
  have "list_all (\<lambda>x. \<not> strict_eq (t ''id'') (x ''id'')) ts =
      list_all (\<lambda>v. \<not> strict_eq (t ''id'') v) (map (\<lambda>t. t ''id'') ts)"
    by (simp add: list_all_iff)
  also have "\<dots> = list_all (\<lambda>x. \<not> strict_eq (u ''id'') (x ''id'')) us'"
    unfolding tl hd by (simp add: list_all_iff)
  finally show ?case using Cons.IH [OF tl] us by simp
qed

lemma id_below_cong:
  "map (\<lambda>t. t ''id'') ts = map (\<lambda>t. t ''id'') us \<Longrightarrow>
     list_all (id_below g) ts = list_all (id_below g) us"
proof -
  assume eq: "map (\<lambda>t. t ''id'') ts = map (\<lambda>t. t ''id'') us"
  let ?below = "\<lambda>v. case v of Some (JNum (Num n)) \<Rightarrow> n < g | _ \<Rightarrow> False"
  have "list_all (id_below g) xs = list_all ?below (map (\<lambda>t. t ''id'') xs)" for xs
    by (simp add: list_all_iff)
  with eq show ?thesis by simp
qed

text \<open>
  Requests whose \<open>POST\<close> bodies have no \<open>id\<close> keep the ids of the array pairwise
  different integers below the counter; the seeded store starts that way.
\<close>

lemma id_below_mono: "id_below g t \<Longrightarrow> g \<le> n \<Longrightarrow> id_below n t"
  by (auto split: option.splits json.splits jsnum.splits)

lemma post_draft_store_ok:
  assumes "store_ok s" and "item ''id'' = None"
  shows "store_ok (fst (post_todos s item))"
proof -
  let ?t = "item(''id'' \<mapsto> JNum (Num (idGenerator s)))"
  have fresh: "\<not> strict_eq (u ''id'') (?t ''id'')" if "u \<in> set (todos s)" for u
  proof -
    from assms(1) that have "id_below (idGenerator s) u" by (simp add: store_ok_def list_all_iff)
    then show ?thesis by (auto split: option.splits json.splits jsnum.splits)
  qed
  have below: "id_below (idGenerator s + 1) u" if "u \<in> set (todos s)" for u
  proof -
    from assms(1) that have "id_below (idGenerator s) u" by (simp add: store_ok_def list_all_iff)
    then show ?thesis by (auto split: option.splits json.splits jsnum.splits)
  qed
  from assms fresh below show ?thesis
    by (simp add: post_todos_def newId_def Let_def spread_draft store_ok_def unique_ids_snoc
        list_all_iff)
qed

lemma put_store_ok:
  assumes "store_ok s"
  shows "store_ok (fst (put_todos s item))"
proof (cases "\<exists>t \<in> set (todos s). strict_eq (t ''id'') (item ''id'')")
  case False
  with assms show ?thesis by (simp add: put_todos_not_found)
next
  case True
  from put_todos_found [of s item, OF True]
  obtain i where i: "i < length (todos s)" "strict_eq ((todos s ! i) ''id'') (item ''id'')"
    "put_todos s item = (s\<lparr>todos := (todos s)[i := todos s ! i ++ item]\<rparr>,
       Response 200 (JsonObj (todos s ! i ++ item)))"
    by blast
  from i(2) have same: "(todos s ! i) ''id'' = item ''id''" by (rule strict_eq_same)
  then have "(todos s ! i ++ item) ''id'' = (todos s ! i) ''id''"
    by (simp add: map_add_def split: option.splits)
  then have "map (\<lambda>t. t ''id'') ((todos s)[i := todos s ! i ++ item]) =
      map (\<lambda>t. t ''id'') (todos s)"
    by (simp add: map_update list_update_same_conv i(1))
  from unique_ids_cong [OF this] id_below_cong [OF this] assms i(3) show ?thesis
    by (simp add: store_ok_def)
qed

lemma delete_store_ok:
  assumes "store_ok s"
  shows "store_ok (fst (delete_todo s n))"
proof (cases "\<exists>t \<in> set (todos s). strict_eq (t ''id'') (Some (JNum n))")
  case False
  with assms show ?thesis by (simp add: delete_todo_not_found)
next
  case True
  from delete_todo_found [OF True]
  obtain i where i: "delete_todo s n =
      (s\<lparr>todos := take i (todos s) @ drop (Suc i) (todos s)\<rparr>,
       Response 200 (JsonObj (todos s ! i)))"
    by blast
  have "set (take i (todos s) @ drop (Suc i) (todos s)) \<subseteq> set (todos s)"
    using set_take_subset [of i "todos s"] set_drop_subset [of "Suc i" "todos s"] by auto
  with assms have "list_all (id_below (idGenerator s)) (take i (todos s) @ drop (Suc i) (todos s))"
    unfolding store_ok_def list_all_iff by blast
  with assms unique_ids_remove [of "todos s" i] i show ?thesis
    by (simp add: store_ok_def)
qed

lemma handle_store_ok: "store_ok s \<Longrightarrow> is_draft r \<Longrightarrow> store_ok (fst (handle s r))"
  by (cases r)
    (simp_all add: get_todos_def get_todo_def post_draft_store_ok put_store_ok delete_store_ok
      split: option.splits)

lemma run_store_ok: "store_ok s \<Longrightarrow> drafts_only reqs \<Longrightarrow> store_ok (fst (run s reqs))"
proof (induction reqs arbitrary: s)
  case Nil
  then show ?case by simp
next
  case (Cons r rs)
  from Cons.prems have "store_ok (fst (handle s r))" and "drafts_only rs"
    by (simp_all add: drafts_only_def handle_store_ok)
  from Cons.IH [OF this] show ?case by (simp add: split_beta Let_def)
qed

lemma initial_store_ok: "store_ok initial_store"
  by (simp add: initial_store_eq store_ok_def)

lemma reachable_unique_ids:
  "drafts_only reqs \<Longrightarrow> unique_ids (todos (fst (run initial_store reqs)))"
  using run_store_ok [OF initial_store_ok] by (simp add: store_ok_def)

subsection \<open>The counter along a sequence of requests\<close>

lemma handle_idGenerator:
  "idGenerator (fst (handle s r)) = idGenerator s + int (count_posts [r])"
proof (cases r)
  case (Put item)
  show ?thesis
  proof (cases "\<exists>t \<in> set (todos s). strict_eq (t ''id'') (item ''id'')")
    case True
    from put_todos_found [of s item, OF True] Put show ?thesis by auto
  next
    case False
    then show ?thesis using Put by (simp add: put_todos_not_found)
  qed
next
  case (Delete n)
  show ?thesis
  proof (cases "\<exists>t \<in> set (todos s). strict_eq (t ''id'') (Some (JNum n))")
    case True
    from delete_todo_found [OF True] Delete show ?thesis by auto
  next
    case False
    then show ?thesis using Delete by (simp add: delete_todo_not_found)
  qed
qed (simp_all add: get_todos_def post_todos_def newId_def Let_def get_todo_def split: option.splits)

lemma sent_id_post_draft:
  "item ''id'' = None \<Longrightarrow> sent_id (snd (post_todos s item)) = [idGenerator s]"
  by (simp add: post_todos_def newId_def Let_def send_def spread_draft)

lemma run_idGenerator:
  "idGenerator (fst (run s reqs)) = idGenerator s + int (count_posts reqs)"
proof (induction reqs arbitrary: s)
  case Nil
  show ?case by simp
next
  case (Cons r rs)
  have "count_posts (r # rs) = count_posts [r] + count_posts rs" by (cases r) simp_all
  with Cons [of "fst (handle s r)"] handle_idGenerator [of s r] show ?case
    by (simp add: split_beta Let_def)
qed

lemma run_created_ids:
  "drafts_only reqs \<Longrightarrow>
     created_ids reqs (snd (run s reqs)) =
       map (\<lambda>k. idGenerator s + int k) [0 ..< count_posts reqs]"
proof (induction reqs arbitrary: s)
  case Nil
  show ?case by simp
next
  case (Cons r rs)
  from Cons.prems have rest: "drafts_only rs" and r: "is_draft r"
    by (simp_all add: drafts_only_def)
  let ?s1 = "fst (handle s r)"
  have ih: "created_ids rs (snd (run ?s1 rs)) =
      map (\<lambda>k. idGenerator ?s1 + int k) [0 ..< count_posts rs]"
    by (rule Cons.IH [OF rest])
  show ?case
  proof (cases r)
    case (Post item)
    with r have draft: "item ''id'' = None" by simp
    have g: "idGenerator ?s1 = idGenerator s + 1"
      using handle_idGenerator [of s r] Post by simp
    have "created_ids (r # rs) (snd (run s (r # rs))) =
        idGenerator s # map (\<lambda>k. idGenerator s + 1 + int k) [0 ..< count_posts rs]"
      using Post ih g sent_id_post_draft [of item s, OF draft] by (simp add: split_beta Let_def)
    also have "\<dots> = map (\<lambda>k. idGenerator s + int k) [0 ..< Suc (count_posts rs)]"
      by (simp add: upt_rec [of 0] map_Suc_upt [symmetric] del: upt_Suc)
    finally show ?thesis using Post by simp
  next
    case GetAll
    with ih handle_idGenerator [of s r] show ?thesis by (simp add: split_beta Let_def)
  next
    case (Get n)
    with ih handle_idGenerator [of s r] show ?thesis by (simp add: split_beta Let_def)
  next
    case (Put item)
    with ih handle_idGenerator [of s r] show ?thesis by (simp add: split_beta Let_def)
  next
    case (Delete n)
    with ih handle_idGenerator [of s r] show ?thesis by (simp add: split_beta Let_def)
  qed
qed

lemma sorted_wrt_offsets: "sorted_wrt (<) (map (\<lambda>k. g + int k) [0 ..< m])"
  by (simp add: sorted_wrt_map sorted_wrt_iff_nth_less)

subsection \<open>The claims\<close>

text \<open>
  Claim C1. For every request body without the property \<open>id\<close>, the create handler
  gives the new todo the current value of the counter as its id, raises the counter by one,
  appends the todo at the end of the array and sends it back with status 200. The handler
  has no error response.
\<close>

theorem create_draft:
  assumes "item ''id'' = None"
  shows "post_todos s item =
     (s\<lparr>idGenerator := idGenerator s + 1,
         todos := todos s @ [item(''id'' \<mapsto> JNum (Num (idGenerator s)))]\<rparr>,
      Response 200 (JsonObj (item(''id'' \<mapsto> JNum (Num (idGenerator s))))))"
  using assms by (simp add: post_todos_def newId_def send_def spread_draft Let_def)

text \<open>
  The handler at the seeded store, for the body \<open>{"title": "Learn Rust"}\<close>.
\<close>

theorem create_draft_witness:
  "post_todos initial_store [''title'' \<mapsto> JStr ''Learn Rust''] =
     (\<lparr>idGenerator = 6,
        todos = todos initial_store @ [[''id'' \<mapsto> JNum (Num 5), ''title'' \<mapsto> JStr ''Learn Rust'']]\<rparr>,
      Response 200 (JsonObj [''id'' \<mapsto> JNum (Num 5), ''title'' \<mapsto> JStr ''Learn Rust'']))"
proof -
  have twist: "[''title'' \<mapsto> JStr ''Learn Rust'', ''id'' \<mapsto> JNum (Num 5)] =
      [''id'' \<mapsto> JNum (Num 5), ''title'' \<mapsto> JStr ''Learn Rust'']"
    by (rule fun_upd_twist) simp
  from create_draft [of "[''title'' \<mapsto> JStr ''Learn Rust'']" initial_store] show ?thesis
    by (simp add: initial_store_eq twist)
qed

text \<open>
  Claim C2. When the request body has a property \<open>id\<close>, the spread writes it over the
  generated one: the todo that is stored and sent back is the body itself, with the caller's
  id, while the counter still goes up by one. If a stored todo already has that id, the
  array holds two todos with the same id afterwards.
\<close>

theorem create_body_id_overrides:
  assumes "item ''id'' = Some v"
  shows "post_todos s item =
       (s\<lparr>idGenerator := idGenerator s + 1, todos := todos s @ [item]\<rparr>,
        Response 200 (JsonObj item))
     \<and> ((\<exists>t \<in> set (todos s). strict_eq (t ''id'') (Some v)) \<longrightarrow>
          \<not> unique_ids (todos (fst (post_todos s item))))"
  using assms
  by (auto simp: post_todos_def newId_def send_def spread_body_id unique_ids_snoc list_all_iff Let_def)

text \<open>
  The seeded store has pairwise different ids; one create with the body
  \<open>{"id": 1, "title": "again"}\<close> ends that.
\<close>

theorem create_body_id_overrides_witness:
  "post_todos initial_store [''id'' \<mapsto> JNum (Num 1), ''title'' \<mapsto> JStr ''again''] =
       (\<lparr>idGenerator = 6,
          todos = todos initial_store @ [[''id'' \<mapsto> JNum (Num 1), ''title'' \<mapsto> JStr ''again'']]\<rparr>,
        Response 200 (JsonObj [''id'' \<mapsto> JNum (Num 1), ''title'' \<mapsto> JStr ''again'']))
   \<and> unique_ids (todos initial_store)
   \<and> \<not> unique_ids
        (todos (fst (post_todos initial_store [''id'' \<mapsto> JNum (Num 1), ''title'' \<mapsto> JStr ''again''])))"
  using create_body_id_overrides
    [of "[''id'' \<mapsto> JNum (Num 1), ''title'' \<mapsto> JStr ''again'']" "JNum (Num 1)" initial_store]
  by (simp add: initial_store_eq)

text \<open>
  Claim C3. If some todo's id is \<open>===\<close> to the id of the body, the update handler
  replaces the first such todo, at its position, by the merge of the body over it (a
  property of the body wins, a property the body lacks keeps its value) and sends the
  merged todo with status 200. Otherwise it answers 404 and the store is unchanged.
\<close>

theorem update_merges_or_not_found:
  "((\<exists>t \<in> set (todos s). strict_eq (t ''id'') (item ''id'')) \<longrightarrow>
      (\<exists>i < length (todos s).
         strict_eq ((todos s ! i) ''id'') (item ''id'') \<and>
         (\<forall>j < i. \<not> strict_eq ((todos s ! j) ''id'') (item ''id'')) \<and>
         (\<forall>k. (todos s ! i ++ item) k =
            (case item k of Some v \<Rightarrow> Some v | None \<Rightarrow> (todos s ! i) k)) \<and>
         put_todos s item =
           (s\<lparr>todos := (todos s)[i := todos s ! i ++ item]\<rparr>,
            Response 200 (JsonObj (todos s ! i ++ item))))) \<and>
   (\<not> (\<exists>t \<in> set (todos s). strict_eq (t ''id'') (item ''id'')) \<longrightarrow>
      put_todos s item =
        (s, Response 404 (Text (''Todo entity not found by id: '' @ template (item ''id'')))))"
proof (intro conjI impI)
  assume "\<exists>t \<in> set (todos s). strict_eq (t ''id'') (item ''id'')"
  from put_todos_found [of s item, OF this]
  obtain i where i: "i < length (todos s)"
    "strict_eq ((todos s ! i) ''id'') (item ''id'')"
    "\<forall>j < i. \<not> strict_eq ((todos s ! j) ''id'') (item ''id'')"
    "put_todos s item =
      (s\<lparr>todos := (todos s)[i := todos s ! i ++ item]\<rparr>,
       Response 200 (JsonObj (todos s ! i ++ item)))"
    by blast
  have merge: "\<forall>k. (todos s ! i ++ item) k =
      (case item k of Some v \<Rightarrow> Some v | None \<Rightarrow> (todos s ! i) k)"
    by (simp add: map_add_def split: option.splits)
  from i merge show "\<exists>i < length (todos s).
         strict_eq ((todos s ! i) ''id'') (item ''id'') \<and>
         (\<forall>j < i. \<not> strict_eq ((todos s ! j) ''id'') (item ''id'')) \<and>
         (\<forall>k. (todos s ! i ++ item) k =
            (case item k of Some v \<Rightarrow> Some v | None \<Rightarrow> (todos s ! i) k)) \<and>
         put_todos s item =
           (s\<lparr>todos := (todos s)[i := todos s ! i ++ item]\<rparr>,
            Response 200 (JsonObj (todos s ! i ++ item)))"
    by blast
next
  assume "\<not> (\<exists>t \<in> set (todos s). strict_eq (t ''id'') (item ''id''))"
  then show "put_todos s item =
        (s, Response 404 (Text (''Todo entity not found by id: '' @ template (item ''id''))))"
    by (simp add: put_todos_not_found)
qed

text \<open>
  At the seeded store: the body \<open>{"id": 1, "title": "Learn TS"}\<close> replaces the first
  todo, the body \<open>{"id": 9, "title": "Learn TS"}\<close> finds none.
\<close>

theorem update_merges_or_not_found_witness:
  "put_todos initial_store [''id'' \<mapsto> JNum (Num 1), ''title'' \<mapsto> JStr ''Learn TS''] =
     (initial_store\<lparr>todos := (todos initial_store)
        [0 := [''id'' \<mapsto> JNum (Num 1), ''title'' \<mapsto> JStr ''Learn TS'']]\<rparr>,
      Response 200 (JsonObj [''id'' \<mapsto> JNum (Num 1), ''title'' \<mapsto> JStr ''Learn TS'']))
   \<and> put_todos initial_store [''id'' \<mapsto> JNum (Num 9), ''title'' \<mapsto> JStr ''Learn TS''] =
     (initial_store, Response 404 (Text ''Todo entity not found by id: 9''))"
  using update_merges_or_not_found
      [of initial_store "[''id'' \<mapsto> JNum (Num 1), ''title'' \<mapsto> JStr ''Learn TS'']"]
    update_merges_or_not_found
      [of initial_store "[''id'' \<mapsto> JNum (Num 9), ''title'' \<mapsto> JStr ''Learn TS'']"]
  by (auto simp: initial_store_eq less_Suc_eq digits.simps digit_char_def)

text \<open>
  Claim C4. If some todo's id is \<open>===\<close> to the requested id, the delete handler
  removes the first such todo from the array and sends it with status 200. Otherwise it
  answers 404 and the store is unchanged. Either way the counter is untouched.
\<close>

theorem delete_removes_or_not_found:
  "((\<exists>t \<in> set (todos s). strict_eq (t ''id'') (Some (JNum n))) \<longrightarrow>
      (\<exists>i < length (todos s).
         strict_eq ((todos s ! i) ''id'') (Some (JNum n)) \<and>
         (\<forall>j < i. \<not> strict_eq ((todos s ! j) ''id'') (Some (JNum n))) \<and>
         delete_todo s n =
           (s\<lparr>todos := take i (todos s) @ drop (Suc i) (todos s)\<rparr>,
            Response 200 (JsonObj (todos s ! i))))) \<and>
   (\<not> (\<exists>t \<in> set (todos s). strict_eq (t ''id'') (Some (JNum n))) \<longrightarrow>
      delete_todo s n =
        (s, Response 404 (Text (''Todo entity not found by id: '' @ num_toString n))))"
proof (intro conjI impI)
  assume "\<exists>t \<in> set (todos s). strict_eq (t ''id'') (Some (JNum n))"
  then show "\<exists>i < length (todos s).
         strict_eq ((todos s ! i) ''id'') (Some (JNum n)) \<and>
         (\<forall>j < i. \<not> strict_eq ((todos s ! j) ''id'') (Some (JNum n))) \<and>
         delete_todo s n =
           (s\<lparr>todos := take i (todos s) @ drop (Suc i) (todos s)\<rparr>,
            Response 200 (JsonObj (todos s ! i)))"
    by (rule delete_todo_found)
next
  assume "\<not> (\<exists>t \<in> set (todos s). strict_eq (t ''id'') (Some (JNum n)))"
  then show "delete_todo s n =
        (s, Response 404 (Text (''Todo entity not found by id: '' @ num_toString n)))"
    by (simp add: delete_todo_not_found)
qed

text \<open>
  At the seeded store: id 2 is removed, id 9 is not found.
\<close>

theorem delete_removes_or_not_found_witness:
  "delete_todo initial_store (Num 2) =
     (initial_store\<lparr>todos := [todos initial_store ! 0, todos initial_store ! 2, todos initial_store ! 3]\<rparr>,
      Response 200 (JsonObj [''id'' \<mapsto> JNum (Num 2), ''title'' \<mapsto> JStr ''Learn Angular'']))
   \<and> delete_todo initial_store (Num 9) =
     (initial_store, Response 404 (Text ''Todo entity not found by id: 9''))"
  using delete_removes_or_not_found [of initial_store "Num 2"]
    delete_removes_or_not_found [of initial_store "Num 9"]
  by (auto simp: initial_store_eq less_Suc_eq digits.simps digit_char_def)

text \<open>
  Claim C5. In every sequence of requests whose \<open>POST\<close> bodies have no \<open>id\<close>,
  from any store, every \<open>POST\<close> is answered with an integer id, these ids strictly
  increase in the order of the requests (so each is greater than all assigned before it and
  none occurs twice), none is below the counter the sequence started with, and the counter
  ends higher by the number of \<open>POST\<close> requests. Where the ids of the store the
  sequence starts from are pairwise different integers below the counter, as in the seeded
  store, every id created is also greater than every id stored at the start. Deletes, updates and reads in between
  change none of this, since no handler but create writes the counter.
\<close>

theorem created_ids_strictly_increase:
  assumes "drafts_only reqs"
  shows "length (created_ids reqs (snd (run s reqs))) = count_posts reqs \<and>
    sorted_wrt (<) (created_ids reqs (snd (run s reqs))) \<and>
    distinct (created_ids reqs (snd (run s reqs))) \<and>
    list_all (\<lambda>n. idGenerator s \<le> n) (created_ids reqs (snd (run s reqs))) \<and>
    (store_ok s \<longrightarrow>
      (\<forall>t \<in> set (todos s). \<forall>n \<in> set (created_ids reqs (snd (run s reqs))). id_below n t)) \<and>
    idGenerator (fst (run s reqs)) = idGenerator s + int (count_posts reqs)"
proof -
  let ?ids = "created_ids reqs (snd (run s reqs))"
  have ids: "?ids = map (\<lambda>k. idGenerator s + int k) [0 ..< count_posts reqs]"
    by (rule run_created_ids [OF assms])
  have sorted: "sorted_wrt (<) ?ids" unfolding ids by (rule sorted_wrt_offsets)
  have dist: "distinct ?ids" unfolding ids by (simp add: distinct_map inj_on_def)
  have len: "length ?ids = count_posts reqs" unfolding ids by simp
  have above: "list_all (\<lambda>n. idGenerator s \<le> n) ?ids" unfolding ids by (simp add: list_all_iff)
  have "id_below n t" if "store_ok s" "t \<in> set (todos s)" "n \<in> set ?ids" for t n
  proof -
    from that(1,2) have "id_below (idGenerator s) t" by (simp add: store_ok_def list_all_iff)
    moreover from above that(3) have "idGenerator s \<le> n" by (simp add: list_all_iff)
    ultimately show ?thesis by (rule id_below_mono)
  qed
  with sorted dist len above run_idGenerator [of s reqs] show ?thesis by blast
qed

text \<open>
  From the seeded store: create, delete the todo just created, create again. The second
  create gets 6, not the freed 5.
\<close>

theorem created_ids_strictly_increase_witness:
  "store_ok initial_store \<and>
   drafts_only [Post [''title'' \<mapsto> JStr ''a''], Delete (Num 5), Post [''title'' \<mapsto> JStr ''b''], Get (Num 5)] \<and>
   snd (run initial_store
     [Post [''title'' \<mapsto> JStr ''a''], Delete (Num 5), Post [''title'' \<mapsto> JStr ''b''], Get (Num 5)]) =
     [Response 200 (JsonObj [''id'' \<mapsto> JNum (Num 5), ''title'' \<mapsto> JStr ''a'']),
      Response 200 (JsonObj [''id'' \<mapsto> JNum (Num 5), ''title'' \<mapsto> JStr ''a'']),
      Response 200 (JsonObj [''id'' \<mapsto> JNum (Num 6), ''title'' \<mapsto> JStr ''b'']),
      Response 404 (Text ''Todo entity not found by id: 5'')] \<and>
   created_ids
     [Post [''title'' \<mapsto> JStr ''a''], Delete (Num 5), Post [''title'' \<mapsto> JStr ''b''], Get (Num 5)]
     (snd (run initial_store
       [Post [''title'' \<mapsto> JStr ''a''], Delete (Num 5), Post [''title'' \<mapsto> JStr ''b''], Get (Num 5)])) =
     [5, 6] \<and>
   idGenerator (fst (run initial_store
     [Post [''title'' \<mapsto> JStr ''a''], Delete (Num 5), Post [''title'' \<mapsto> JStr ''b''], Get (Num 5)])) = 7"
proof -
  let ?reqs = "[Post [''title'' \<mapsto> JStr ''a''], Delete (Num 5), Post [''title'' \<mapsto> JStr ''b''], Get (Num 5)]"
  have d: "drafts_only ?reqs" by (simp add: drafts_only_def)
  have r: "snd (run initial_store ?reqs) =
     [Response 200 (JsonObj [''id'' \<mapsto> JNum (Num 5), ''title'' \<mapsto> JStr ''a'']),
      Response 200 (JsonObj [''id'' \<mapsto> JNum (Num 5), ''title'' \<mapsto> JStr ''a'']),
      Response 200 (JsonObj [''id'' \<mapsto> JNum (Num 6), ''title'' \<mapsto> JStr ''b'']),
      Response 404 (Text ''Todo entity not found by id: 5'')]"
    by (simp add: initial_store_eq post_todos_def newId_def delete_todo_def get_todo_def
        splice_arr_def send_def status_send_def not_found_msg_def Let_def
        digits.simps digit_char_def)
  from created_ids_strictly_increase [OF d, of initial_store] d r initial_store_ok show ?thesis
    by (simp add: initial_store_eq)
qed






text \<open>
  Claim C8. The seeded store holds four todos with the ids 1 to 4. From it,
  \<open>DELETE /api/todos/2\<close> answers 200 with the todo \<open>{id: 2, title: "Learn Angular"}\<close>,
  the following \<open>GET /api/todos/2\<close> answers 404 with the text
  \<open>Todo entity not found by id: 2\<close>, and the following \<open>GET /api/todos\<close> answers
  with the todos of ids 1, 3 and 4, in this order.
\<close>

theorem seeded_delete_get_list:
  "map (\<lambda>t. t ''id'') (todos initial_store) =
     [Some (JNum (Num 1)), Some (JNum (Num 2)), Some (JNum (Num 3)), Some (JNum (Num 4))] \<and>
   run initial_store [Delete (Num 2), Get (Num 2), GetAll] =
     (\<lparr>idGenerator = 5,
        todos =
          [[''id'' \<mapsto> JNum (Num 1), ''title'' \<mapsto> JStr ''Learn TypeScript''],
           [''id'' \<mapsto> JNum (Num 3), ''title'' \<mapsto> JStr ''Learn NodeJs''],
           [''id'' \<mapsto> JNum (Num 4), ''title'' \<mapsto> JStr ''Learn Express'']]\<rparr>,
      [Response 200 (JsonObj [''id'' \<mapsto> JNum (Num 2), ''title'' \<mapsto> JStr ''Learn Angular'']),
       Response 404 (Text ''Todo entity not found by id: 2''),
       Response 200 (JsonArr
          [[''id'' \<mapsto> JNum (Num 1), ''title'' \<mapsto> JStr ''Learn TypeScript''],
           [''id'' \<mapsto> JNum (Num 3), ''title'' \<mapsto> JStr ''Learn NodeJs''],
           [''id'' \<mapsto> JNum (Num 4), ''title'' \<mapsto> JStr ''Learn Express'']])])"
  by (simp add: initial_store_eq delete_todo_def get_todo_def get_todos_def splice_arr_def
      send_def status_send_def not_found_msg_def digits.simps digit_char_def)

text \<open>
  Claim C9. When \<open>Number(req.params['id'])\<close> is \<open>NaN\<close>, the get and the delete
  handler answer 404 with the text \<open>Todo entity not found by id: NaN\<close> and leave the
  store unchanged, whatever the store holds: \<open>NaN\<close> is \<open>===\<close> to nothing.
\<close>

theorem nan_id_not_found:
  "get_todo s NaN = (s, Response 404 (Text ''Todo entity not found by id: NaN'')) \<and>
   delete_todo s NaN = (s, Response 404 (Text ''Todo entity not found by id: NaN''))"
  using get_todo_not_found [of s NaN] delete_todo_not_found [of s NaN] by simp

text \<open>
  Claim C10. When the body of an update has no property \<open>id\<close> and every stored todo
  has a number as its id, the handler answers 404 with the text
  \<open>Todo entity not found by id: undefined\<close> and leaves the store unchanged.
\<close>

theorem update_without_id_not_found:
  assumes "item ''id'' = None"
    and "list_all numeric_id (todos s)"
  shows "put_todos s item = (s, Response 404 (Text ''Todo entity not found by id: undefined''))"
proof -
  have "\<forall>t \<in> set (todos s). \<not> strict_eq (t ''id'') (item ''id'')"
    using assms by (auto simp: list_all_iff split: option.splits json.splits)
  from put_todos_not_found [of s item, OF this] assms(1) show ?thesis by simp
qed

text \<open>
  At the seeded store, for the body \<open>{"title": "Learn TS"}\<close>.
\<close>

theorem update_without_id_not_found_witness:
  "list_all numeric_id (todos initial_store) \<and>
   put_todos initial_store [''title'' \<mapsto> JStr ''Learn TS''] =
     (initial_store, Response 404 (Text ''Todo entity not found by id: undefined''))"
  using update_without_id_not_found [of "[''title'' \<mapsto> JStr ''Learn TS'']" initial_store]
  by (simp add: initial_store_eq)

end
